theory Spec2Isabelle
  imports Complex_Main "HOL-Library.AList"
begin

section \<open>JavaScript values\<close>

text \<open>
  The preview pipeline exists twice: the request handler (\<^verbatim>\<open>handler\<close>) and the operator
  script (\<^verbatim>\<open>parseArgs\<close>, \<^verbatim>\<open>main\<close>). They take untyped JavaScript values: the parsed JSON
  body of a request, and the flag table of the script, whose entries are strings or \<^verbatim>\<open>true\<close>.
  A \<open>JNum\<close> carries the value of a finite number; \<open>JObj\<close> lists the own properties of a
  parsed object, each key once.
\<close>

type_synonym bytes = "nat list"

datatype jsval =
    JUndefined
  | JNull
  | JBool bool
  | JNum rat
  | JStr string
  | JArr "jsval list"
  | JObj "(string \<times> jsval) list"

text \<open>What \<^verbatim>\<open>!v\<close>, \<^verbatim>\<open>v || d\<close> and \<^verbatim>\<open>v && e\<close> test.\<close>

fun truthy :: "jsval \<Rightarrow> bool" where
  "truthy JUndefined = False"
| "truthy JNull = False"
| "truthy (JBool b) = b"
| "truthy (JNum n) = (n \<noteq> 0)"
| "truthy (JStr s) = (s \<noteq> [])"
| "truthy (JArr xs) = True"
| "truthy (JObj kvs) = True"

text \<open>\<^verbatim>\<open>v || d\<close>\<close>

definition or_else :: "jsval \<Rightarrow> jsval \<Rightarrow> jsval" where
  "or_else v d = (if truthy v then v else d)"

text \<open>
  Reading a property that \<^verbatim>\<open>Object.prototype\<close> does not define (all the names read here:
  \<^verbatim>\<open>bucket\<close>, \<^verbatim>\<open>path\<close>, \<^verbatim>\<open>dest\<close>, \<^verbatim>\<open>destBucket\<close>): the own property, else \<^verbatim>\<open>undefined\<close>.
\<close>

definition get_prop :: "jsval \<Rightarrow> string \<Rightarrow> jsval" where
  "get_prop v k =
     (case v of
        JObj kvs \<Rightarrow> (case map_of kvs k of Some x \<Rightarrow> x | None \<Rightarrow> JUndefined)
      | _ \<Rightarrow> JUndefined)"

text \<open>
  \<^verbatim>\<open>out[key] = val\<close> on a plain object, \<^verbatim>\<open>val\<close> a string or a boolean. Assigning a
  primitive to \<^verbatim>\<open>__proto__\<close> goes to the inherited setter, which ignores it.
\<close>

definition set_prop :: "(string \<times> jsval) list \<Rightarrow> string \<Rightarrow> jsval \<Rightarrow> (string \<times> jsval) list" where
  "set_prop out k v = (if k = ''__proto__'' then out else AList.update k v out)"

text \<open>\<^verbatim>\<open>a.startsWith('--')\<close>\<close>

definition startsWith :: "string \<Rightarrow> string \<Rightarrow> bool" where
  "startsWith a p = (take (length p) a = p)"

text \<open>The decimal digits of a number, as a template literal prints \<^verbatim>\<open>Date.now()\<close>.\<close>

fun show_nat :: "nat \<Rightarrow> string" where
  "show_nat n =
     (if n < 10 then [''0123456789'' ! n]
      else show_nat (n div 10) @ [''0123456789'' ! (n mod 10)])"

declare show_nat.simps [simp del]

section \<open>The flag parser of the script\<close>

text \<open>
  \<^verbatim>\<open>
  for (let i = 0; i < args.length; i++) {
    const a = args[i];
    if (a.startsWith('--')) {
      const key = a.slice(2);
      const val = args[i + 1] && !args[i + 1].startsWith('--') ? args[++i] : true;
      out[key] = val;
    }
  }
  \<close>
  The loop runs over the list that is left; \<^verbatim>\<open>args[i + 1]\<close> is \<^verbatim>\<open>undefined\<close> past the
  end and falsy when it is the empty string.
\<close>

fun parseArgs_loop :: "string list \<Rightarrow> (string \<times> jsval) list \<Rightarrow> (string \<times> jsval) list" where
  "parseArgs_loop [] out = out"
| "parseArgs_loop [a] out =
     (if startsWith a ''--'' then set_prop out (drop 2 a) (JBool True) else out)"
| "parseArgs_loop (a # b # rest) out =
     (if startsWith a ''--'' then
        (if b \<noteq> [] \<and> \<not> startsWith b ''--''
         then parseArgs_loop rest (set_prop out (drop 2 a) (JStr b))
         else parseArgs_loop (b # rest) (set_prop out (drop 2 a) (JBool True)))
      else parseArgs_loop (b # rest) out)"

definition parseArgs :: "string list \<Rightarrow> jsval" where
  "parseArgs argv = JObj (parseArgs_loop argv [])"

section \<open>The host: events, files, the object store\<close>

text \<open>The options object handed to \<^verbatim>\<open>upload\<close>; a property that is not given is \<open>None\<close>.\<close>

record upload_options =
  cacheControl :: "string option"
  contentType :: "string option"
  upsert :: "bool option"

text \<open>Every call that leaves the process, in the order made.\<close>

datatype event =
    ConsoleError string
  | ConsoleLog string
  | Spawn string "string list"
  | CreateClient "string option" "string option"
  | CreateSignedUrl jsval jsval nat
  | Fetch string
  | Mkdtemp string
  | WriteFile string bytes
  | Upload jsval jsval "bytes option" upload_options
  | GetPublicUrl jsval jsval
  | RmSync string

text \<open>An object of the store: its bytes and the content type the uploader asked for.\<close>

record stored =
  content :: bytes
  mime :: "string option"

record sys =
  dirs :: "string list"
  files :: "(string \<times> bytes) list"
  store :: "((jsval \<times> jsval) \<times> stored) list"
  trace :: "event list"

datatype 'a outcome = Returns 'a | Throws string

text \<open>The object \<^verbatim>\<open>spawnSync\<close> returns: \<^verbatim>\<open>error\<close> and \<^verbatim>\<open>status\<close> (null after a signal).\<close>

record spawn_result =
  sp_error :: "string option"
  sp_status :: "int option"

text \<open>\<^verbatim>\<open>{ data: signed, error: signedErr }\<close>; \<open>signedUrl\<close> stands for \<^verbatim>\<open>signed?.signedUrl\<close>.\<close>

record signed_reply =
  signedErr :: "string option"
  signedUrl :: "string option"

record fetch_reply =
  ok :: bool
  http_status :: nat
  arrayBuffer :: "bytes outcome"

text \<open>
  What the host answers during one invocation: the environment, the clock, the Node
  library (\<^verbatim>\<open>os.tmpdir\<close>, \<^verbatim>\<open>path.join\<close>, \<^verbatim>\<open>path.extname\<close>), the encoder, the storage
  client and the file system. None of it is code of the repository, so each answer is a
  parameter. \<^verbatim>\<open>path.join\<close> joins with the platform's separator and normalises the result,
  and which files lie below a directory (\<open>fs_below w dir p\<close>) is the file system's matter:
  neither is fixed here.
\<close>

record world =
  env_SUPABASE_URL :: "string option"
  env_SUPABASE_SERVICE_ROLE_KEY :: "string option"
  date_now :: nat
  os_tmpdir :: string
  path_join :: "string \<Rightarrow> string \<Rightarrow> string"
  path_extname :: "string \<Rightarrow> string"
  fs_below :: "string \<Rightarrow> string \<Rightarrow> bool"
  ffCheck_result :: spawn_result
  createClient_result :: "unit outcome"
  createSignedUrl_result :: "signed_reply outcome"
  fetch_result :: "fetch_reply outcome"
  mkdtemp_result :: "string outcome"
  writeFile_result :: "unit outcome"
  ffmpeg_result :: spawn_result
  ffmpeg_written :: "bytes option"
  upload_result :: "string option outcome"
  publicUrl_of :: "jsval \<Rightarrow> jsval \<Rightarrow> string"
  rmSync_result :: "unit outcome"

definition emit :: "event \<Rightarrow> sys \<Rightarrow> sys" where
  "emit e s = s\<lparr>trace := trace s @ [e]\<rparr>"

text \<open>\<^verbatim>\<open>!process.env.X\<close>: unset, or set to the empty string.\<close>

definition env_missing :: "string option \<Rightarrow> bool" where
  "env_missing v = (case v of None \<Rightarrow> True | Some x \<Rightarrow> x = [])"

text \<open>\<^verbatim>\<open>path.extname(p)\<close> raises a TypeError unless \<open>p\<close> is a string.\<close>

definition extname :: "world \<Rightarrow> jsval \<Rightarrow> string outcome" where
  "extname w p =
     (case p of JStr str \<Rightarrow> Returns (path_extname w str)
      | _ \<Rightarrow> Throws ''ERR_INVALID_ARG_TYPE'')"

text \<open>
  \<^verbatim>\<open>spawnSync('ffmpeg', args)\<close> never raises: a failure to start is the \<^verbatim>\<open>error\<close>
  property. The version probe writes nothing; the transcoding call leaves what the encoder
  wrote at its last argument, the output path.
\<close>

definition spawnSync :: "world \<Rightarrow> string \<Rightarrow> string list \<Rightarrow> sys \<Rightarrow> spawn_result \<times> sys" where
  "spawnSync w cmd args s =
     (let s1 = emit (Spawn cmd args) s in
      if args = [''-version''] then (ffCheck_result w, s1)
      else (ffmpeg_result w,
            (case ffmpeg_written w of
               None \<Rightarrow> s1
             | Some bs \<Rightarrow> s1\<lparr>files := AList.update (last args) bs (files s1)\<rparr>)))"

text \<open>
  \<^verbatim>\<open>createClient(SUPABASE_URL, SUPABASE_SERVICE_ROLE_KEY)\<close>, given the two environment
  values as they were read; the client library may refuse them by raising.
\<close>

definition createClient ::
  "world \<Rightarrow> string option \<Rightarrow> string option \<Rightarrow> sys \<Rightarrow> unit outcome \<times> sys" where
  "createClient w url key s = (createClient_result w, emit (CreateClient url key) s)"

definition createSignedUrl ::
  "world \<Rightarrow> jsval \<Rightarrow> jsval \<Rightarrow> nat \<Rightarrow> sys \<Rightarrow> signed_reply outcome \<times> sys" where
  "createSignedUrl w bucket key expiry s =
     (createSignedUrl_result w, emit (CreateSignedUrl bucket key expiry) s)"

definition fetch :: "world \<Rightarrow> string \<Rightarrow> sys \<Rightarrow> fetch_reply outcome \<times> sys" where
  "fetch w url s = (fetch_result w, emit (Fetch url) s)"

text \<open>\<^verbatim>\<open>fs.mkdtempSync(prefix)\<close> creates the directory \<open>prefix\<close> plus six characters.\<close>

definition mkdtempSync :: "world \<Rightarrow> string \<Rightarrow> sys \<Rightarrow> string outcome \<times> sys" where
  "mkdtempSync w prefix s =
     (let s1 = emit (Mkdtemp prefix) s in
      case mkdtemp_result w of
        Throws e \<Rightarrow> (Throws e, s1)
      | Returns sfx \<Rightarrow> (Returns (prefix @ sfx), s1\<lparr>dirs := List.insert (prefix @ sfx) (dirs s1)\<rparr>))"

definition writeFileSync :: "world \<Rightarrow> string \<Rightarrow> bytes \<Rightarrow> sys \<Rightarrow> unit outcome \<times> sys" where
  "writeFileSync w p bs s =
     (let s1 = emit (WriteFile p bs) s in
      case writeFile_result w of
        Throws e \<Rightarrow> (Throws e, s1)
      | Returns u \<Rightarrow> (Returns (), s1\<lparr>files := AList.update p bs (files s1)\<rparr>))"

text \<open>\<^verbatim>\<open>fs.createReadStream(p)\<close>: the bytes of the file, \<open>None\<close> when there is no such file.\<close>

definition createReadStream :: "string \<Rightarrow> sys \<Rightarrow> bytes option" where
  "createReadStream p s = map_of (files s) p"

text \<open>
  Modelled from the spec: the object store is a hosted service with no code in the
  repository. Its glossary entry for upsert is "a write that creates the object if absent
  or overwrites it if present, at a given key"; without upsert a write to a taken key is
  refused. The client returns its failures in the \<^verbatim>\<open>error\<close> property; a stream that cannot
  be read is one of them.
\<close>

definition storage_upload ::
  "world \<Rightarrow> jsval \<Rightarrow> jsval \<Rightarrow> bytes option \<Rightarrow> upload_options \<Rightarrow> sys
     \<Rightarrow> string option outcome \<times> sys" where
  "storage_upload w bucket key stream opts s =
     (let s1 = emit (Upload bucket key stream opts) s in
      case upload_result w of
        Throws e \<Rightarrow> (Throws e, s1)
      | Returns (Some err) \<Rightarrow> (Returns (Some err), s1)
      | Returns None \<Rightarrow>
          (case stream of
             None \<Rightarrow> (Returns (Some ''stream error''), s1)
           | Some bs \<Rightarrow>
               if upsert opts \<noteq> Some True \<and> map_of (store s1) (bucket, key) \<noteq> None
               then (Returns (Some ''Duplicate''), s1)
               else (Returns None,
                     s1\<lparr>store := AList.update (bucket, key)
                                   \<lparr>content = bs, mime = contentType opts\<rparr> (store s1)\<rparr>)))"

definition getPublicUrl :: "world \<Rightarrow> jsval \<Rightarrow> jsval \<Rightarrow> sys \<Rightarrow> string \<times> sys" where
  "getPublicUrl w bucket key s = (publicUrl_of w bucket key, emit (GetPublicUrl bucket key) s)"

text \<open>\<^verbatim>\<open>fs.rmSync(dir, { recursive: true })\<close>: the directory and everything below it.\<close>

definition rmSync :: "world \<Rightarrow> string \<Rightarrow> sys \<Rightarrow> unit outcome \<times> sys" where
  "rmSync w dir s =
     (let s1 = emit (RmSync dir) s in
      case rmSync_result w of
        Throws e \<Rightarrow> (Throws e, s1)
      | Returns u \<Rightarrow>
          (Returns (),
           s1\<lparr>dirs := removeAll dir (dirs s1),
              files := filter (\<lambda>(p, bs). \<not> fs_below w dir p) (files s1)\<rparr>))"

text \<open>The encoder's arguments, as both entry points write them.\<close>

definition ffmpeg_args :: "string \<Rightarrow> string \<Rightarrow> string list" where
  "ffmpeg_args inputPath outputPath =
     [''-y'', ''-i'', inputPath, ''-ss'', ''0'', ''-t'', ''30'', ''-vn'',
      ''-acodec'', ''libmp3lame'', ''-b:a'', ''192k'', outputPath]"

text \<open>The signed URL the pipeline goes on with: no error, and a non-empty URL.\<close>

definition usable_url :: "signed_reply \<Rightarrow> string option" where
  "usable_url signed =
     (if signedErr signed \<noteq> None then None
      else (case signedUrl signed of
              None \<Rightarrow> None
            | Some u \<Rightarrow> if u = [] then None else Some u))"

text \<open>\<^verbatim>\<open>ff.error || ff.status !== 0\<close>\<close>

definition ff_failed :: "spawn_result \<Rightarrow> bool" where
  "ff_failed ff = (sp_error ff \<noteq> None \<or> sp_status ff \<noteq> Some 0)"

text \<open>\<^verbatim>\<open>previews/preview_${Date.now()}.mp3\<close>\<close>

definition default_dest :: "world \<Rightarrow> jsval" where
  "default_dest w = JStr (''previews/preview_'' @ show_nat (date_now w) @ ''.mp3'')"

text \<open>\<^verbatim>\<open>{ upsert: true }\<close>\<close>

definition upsert_only :: upload_options where
  "upsert_only = \<lparr>cacheControl = None, contentType = None, upsert = Some True\<rparr>"

section \<open>The request handler\<close>

record request =
  req_method :: string
  req_json :: "jsval option"

datatype resp_body = Text string | Json "(string \<times> jsval) list"

record response =
  body :: resp_body
  status :: nat

text \<open>
  The file of the handler is module code: it begins with \<^verbatim>\<open>import\<close> declarations (lines 1
  to 5) and its function is an \<^verbatim>\<open>export default\<close> (line 7). Module code is strict mode
  code, in which \<^verbatim>\<open>public\<close> is a reserved word. Line 74 binds it,
  \<^verbatim>\<open>const { data: public } = supabase.storage.from(destBucket).getPublicUrl(finalDestPath);\<close>
  and line 79 reads it, \<^verbatim>\<open>public?.publicUrl\<close>. Both are early errors: the module is rejected
  with a SyntaxError when it is parsed, before any statement of it is evaluated. The
  function is never defined, so no request is answered by it and none of its calls is
  made: whatever the request and the host, the invocation fails with that error and
  leaves the system as it was.
\<close>

definition handler :: "world \<Rightarrow> request \<Rightarrow> sys \<Rightarrow> response outcome \<times> sys" where
  "handler w req s =
     (Throws ''SyntaxError: Unexpected strict mode reserved word'', s)"

section \<open>The operator script\<close>

text \<open>
  How the process ends: \<^verbatim>\<open>process.exit(code)\<close>, or an error that leaves the async
  function outside its \<^verbatim>\<open>try\<close> (an unhandled rejection).
\<close>

datatype ending = Exit nat | Unhandled string

text \<open>Lines 459 to 472: upload, public URL, the two success messages, removal, exit 0.\<close>

definition main_publish ::
  "world \<Rightarrow> jsval \<Rightarrow> jsval \<Rightarrow> string \<Rightarrow> string \<Rightarrow> sys \<Rightarrow> nat outcome \<times> sys" where
  "main_publish w destBucket destPath tmpDir outputPath s =
     (let s0 = emit (ConsoleLog ''Uploading preview to Supabase storage...'') s;
          fileStream = createReadStream outputPath s0
      in case storage_upload w destBucket destPath fileStream upsert_only s0 of
           (Throws e, s1) \<Rightarrow> (Throws e, s1)
         | (Returns (Some uploadError), s1) \<Rightarrow> (Throws uploadError, s1)
         | (Returns None, s1) \<Rightarrow>
             (case getPublicUrl w destBucket destPath s1 of
                (publicUrl, s2) \<Rightarrow>
                  (let s3 = emit (ConsoleLog ''Preview uploaded successfully!'') s2;
                       s4 = emit (ConsoleLog (''Public URL: '' @ publicUrl)) s3
                   in case rmSync w tmpDir s4 of
                        (ignored, s5) \<Rightarrow> (Returns 0, s5))))"

text \<open>Lines 452 to 457: the encoder runs; an error or a status other than 0 is thrown.\<close>

definition main_transcode ::
  "world \<Rightarrow> jsval \<Rightarrow> jsval \<Rightarrow> string \<Rightarrow> string \<Rightarrow> string \<Rightarrow> sys \<Rightarrow> nat outcome \<times> sys" where
  "main_transcode w destBucket destPath tmpDir inputPath outputPath s =
     (case spawnSync w ''ffmpeg'' (ffmpeg_args inputPath outputPath)
             (emit (ConsoleLog ''Running ffmpeg to create 30s preview...'') s) of
        (ff, s1) \<Rightarrow>
          if ff_failed ff then (Throws ''ffmpeg failed'', s1)
          else main_publish w destBucket destPath tmpDir outputPath s1)"

text \<open>Lines 444 to 450.\<close>

definition main_workspace ::
  "world \<Rightarrow> jsval \<Rightarrow> jsval \<Rightarrow> jsval \<Rightarrow> fetch_reply \<Rightarrow> sys \<Rightarrow> nat outcome \<times> sys" where
  "main_workspace w sourcePath destBucket destPath response s =
     (case mkdtempSync w (path_join w (os_tmpdir w) ''preview-'') s of
        (Throws e, s1) \<Rightarrow> (Throws e, s1)
      | (Returns tmpDir, s1) \<Rightarrow>
          (case extname w sourcePath of
             Throws e \<Rightarrow> (Throws e, s1)
           | Returns found \<Rightarrow>
               (let ext = (if found = [] then ''.mp3'' else found);
                    inputPath = path_join w tmpDir (''input'' @ ext);
                    outputPath = path_join w tmpDir ''preview.mp3''
                in case arrayBuffer response of
                     Throws e \<Rightarrow> (Throws e, s1)
                   | Returns arr \<Rightarrow>
                       (case writeFileSync w inputPath arr s1 of
                          (Throws e, s2) \<Rightarrow> (Throws e, s2)
                        | (Returns u, s2) \<Rightarrow>
                            main_transcode w destBucket destPath tmpDir inputPath outputPath s2))))"

text \<open>Lines 437 to 442: a signing or download failure is thrown.\<close>

definition main_try ::
  "world \<Rightarrow> jsval \<Rightarrow> jsval \<Rightarrow> jsval \<Rightarrow> jsval \<Rightarrow> sys \<Rightarrow> nat outcome \<times> sys" where
  "main_try w sourceBucket sourcePath destBucket destPath s =
     (case createSignedUrl w sourceBucket sourcePath 60
             (emit (ConsoleLog ''Creating signed URL for source file...'') s) of
        (Throws e, s1) \<Rightarrow> (Throws e, s1)
      | (Returns signed, s1) \<Rightarrow>
          (case usable_url signed of
             None \<Rightarrow> (Throws ''Failed to create signed URL'', s1)
           | Some url \<Rightarrow>
               (case fetch w url s1 of
                  (Throws e, s2) \<Rightarrow> (Throws e, s2)
                | (Returns response, s2) \<Rightarrow>
                    if \<not> ok response then (Throws ''Failed to fetch source file'', s2)
                    else main_workspace w sourcePath destBucket destPath response s2)))"

text \<open>Lines 407 to 434 and the \<^verbatim>\<open>catch\<close> of lines 473 to 476; \<open>argv\<close> is \<^verbatim>\<open>process.argv.slice(2)\<close>.\<close>

definition main :: "world \<Rightarrow> string list \<Rightarrow> sys \<Rightarrow> ending \<times> sys" where
  "main w argv s =
     (let args = parseArgs argv;
          sourceBucket = get_prop args ''bucket'';
          sourcePath = get_prop args ''path'';
          destBucket = or_else (get_prop args ''destBucket'') (JStr ''beat-previews'');
          destPath = or_else (get_prop args ''dest'') (default_dest w)
      in if \<not> truthy sourceBucket \<or> \<not> truthy sourcePath
         then (Exit 2, emit (ConsoleError ''ERROR: --bucket and --path are required'') s)
         else if env_missing (env_SUPABASE_URL w) \<or> env_missing (env_SUPABASE_SERVICE_ROLE_KEY w)
         then (Exit 2,
               emit (ConsoleError
                 ''ERROR: SUPABASE_URL and SUPABASE_SERVICE_ROLE_KEY must be set in env'') s)
         else
           (case spawnSync w ''ffmpeg'' [''-version''] s of
              (ffCheck, s1) \<Rightarrow>
                if sp_error ffCheck \<noteq> None
                then (Exit 2,
                      emit (ConsoleError
                        ''ERROR: ffmpeg not found on PATH. Install ffmpeg first (brew/apt/winget/choco)'')
                        s1)
                else
                  (case createClient w (env_SUPABASE_URL w) (env_SUPABASE_SERVICE_ROLE_KEY w) s1 of
                     (Throws e, s2) \<Rightarrow> (Unhandled e, s2)
                   | (Returns u, s2) \<Rightarrow>
                       (case main_try w sourceBucket sourcePath destBucket destPath s2 of
                          (Throws e, s3) \<Rightarrow>
                            (Exit 1, emit (ConsoleError ''Error generating preview:'') s3)
                        | (Returns code, s3) \<Rightarrow> (Exit code, s3)))))"

section \<open>What a run did\<close>

text \<open>The calls of one invocation: the log it leaves when started with an empty one.\<close>

definition handler_events :: "world \<Rightarrow> request \<Rightarrow> sys \<Rightarrow> event list" where
  "handler_events w req s = trace (snd (handler w req (s\<lparr>trace := []\<rparr>)))"

definition main_events :: "world \<Rightarrow> string list \<Rightarrow> sys \<Rightarrow> event list" where
  "main_events w argv s = trace (snd (main w argv (s\<lparr>trace := []\<rparr>)))"

fun is_upload :: "event \<Rightarrow> bool" where
  "is_upload (Upload b k c opts) = True"
| "is_upload e = False"

text \<open>The two network calls to the source store: signing, and the download.\<close>

fun is_source_call :: "event \<Rightarrow> bool" where
  "is_source_call (CreateSignedUrl b k n) = True"
| "is_source_call (Fetch u) = True"
| "is_source_call e = False"

text \<open>
  What the host handed over on the way, read off the world (empty where the step failed;
  used only for runs where it did not): the signed URL, the downloaded bytes, the
  scratch directory \<^verbatim>\<open>mkdtempSync\<close> made and the two paths in it, the encoder's output.
\<close>

definition signed_url :: "world \<Rightarrow> string" where
  "signed_url w =
     (case createSignedUrl_result w of
        Throws e \<Rightarrow> []
      | Returns signed \<Rightarrow> (case usable_url signed of None \<Rightarrow> [] | Some u \<Rightarrow> u))"

definition downloaded :: "world \<Rightarrow> bytes" where
  "downloaded w =
     (case fetch_result w of
        Throws e \<Rightarrow> []
      | Returns res \<Rightarrow> (case arrayBuffer res of Throws e \<Rightarrow> [] | Returns arr \<Rightarrow> arr))"

definition scratch_dir :: "world \<Rightarrow> string" where
  "scratch_dir w =
     path_join w (os_tmpdir w) ''preview-'' @
       (case mkdtemp_result w of Throws e \<Rightarrow> [] | Returns sfx \<Rightarrow> sfx)"

definition input_path :: "world \<Rightarrow> string \<Rightarrow> string" where
  "input_path w p =
     path_join w (scratch_dir w)
       (''input'' @ (if path_extname w p = [] then ''.mp3'' else path_extname w p))"

definition output_path :: "world \<Rightarrow> string" where
  "output_path w = path_join w (scratch_dir w) ''preview.mp3''"

definition encoded :: "world \<Rightarrow> bytes" where
  "encoded w = (case ffmpeg_written w of None \<Rightarrow> [] | Some bs \<Rightarrow> bs)"

text \<open>The checks the script makes on the host before the pipeline starts.\<close>

definition admitted :: "world \<Rightarrow> bool" where
  "admitted w \<longleftrightarrow>
     \<not> env_missing (env_SUPABASE_URL w) \<and> \<not> env_missing (env_SUPABASE_SERVICE_ROLE_KEY w) \<and>
     sp_error (ffCheck_result w) = None \<and> createClient_result w = Returns ()"

text \<open>Signing fails, the download fails.\<close>

definition signing_fails :: "world \<Rightarrow> bool" where
  "signing_fails w =
     (case createSignedUrl_result w of
        Throws e \<Rightarrow> True
      | Returns signed \<Rightarrow> usable_url signed = None)"

definition fetch_fails :: "world \<Rightarrow> bool" where
  "fetch_fails w = (case fetch_result w of Throws e \<Rightarrow> True | Returns res \<Rightarrow> \<not> ok res)"

text \<open>
  Every step before the encoder succeeds: signing, download, scratch directory, reading
  the body, writing the input file.
\<close>

definition acquires :: "world \<Rightarrow> bool" where
  "acquires w \<longleftrightarrow>
     \<not> signing_fails w \<and> \<not> fetch_fails w \<and>
     (case fetch_result w of
        Throws e \<Rightarrow> False
      | Returns res \<Rightarrow> (case arrayBuffer res of Throws e \<Rightarrow> False | Returns arr \<Rightarrow> True)) \<and>
     (case mkdtemp_result w of Throws e \<Rightarrow> False | Returns sfx \<Rightarrow> True) \<and>
     writeFile_result w = Returns ()"

text \<open>The encoder exits with 0 having written its output, and the store takes the upload.\<close>

definition publishes :: "world \<Rightarrow> bool" where
  "publishes w \<longleftrightarrow>
     \<not> ff_failed (ffmpeg_result w) \<and> ffmpeg_written w \<noteq> None \<and> upload_result w = Returns None"


definition upload_guarded :: "world \<Rightarrow> event list \<Rightarrow> bool" where
  "upload_guarded w evs \<longleftrightarrow>
     (\<forall>n < length evs. is_upload (evs ! n) \<longrightarrow>
        \<not> ff_failed (ffmpeg_result w) \<and>
        (\<exists>i out. Spawn ''ffmpeg'' (ffmpeg_args i out) \<in> set (take n evs)))"



text \<open>The status code of the response, when there is one.\<close>

fun status_of :: "response outcome \<Rightarrow> nat option" where
  "status_of (Returns r) = Some (status r)"
| "status_of (Throws e) = None"


section \<open>Sample runs\<close>

definition sample_world :: world where
  "sample_world =
     \<lparr>env_SUPABASE_URL = Some ''https://demo.supabase.co'',
      env_SUPABASE_SERVICE_ROLE_KEY = Some ''service-key'',
      date_now = 7,
      os_tmpdir = ''/tmp'',
      path_join = (\<lambda>a b. a @ ''/'' @ b),
      path_extname = (\<lambda>p. ''.wav''),
      fs_below = (\<lambda>dir p. take (Suc (length dir)) p = dir @ ''/''),
      ffCheck_result = \<lparr>sp_error = None, sp_status = Some 0\<rparr>,
      createClient_result = Returns (),
      createSignedUrl_result =
        Returns \<lparr>signedErr = None, signedUrl = Some ''https://demo/signed''\<rparr>,
      fetch_result = Returns \<lparr>ok = True, http_status = 200, arrayBuffer = Returns [1, 2, 3]\<rparr>,
      mkdtemp_result = Returns ''abc123'',
      writeFile_result = Returns (),
      ffmpeg_result = \<lparr>sp_error = None, sp_status = Some 0\<rparr>,
      ffmpeg_written = Some [9, 9],
      upload_result = Returns None,
      publicUrl_of = (\<lambda>b k. ''https://demo/public''),
      rmSync_result = Returns ()\<rparr>"

definition sample_request :: request where
  "sample_request =
     \<lparr>req_method = ''POST'',
      req_json = Some (JObj [(''sourceBucket'', JStr ''beats''),
                             (''sourcePath'', JStr ''mp3/track1.wav'')])\<rparr>"

definition sample_argv :: "string list" where
  "sample_argv = [''--bucket'', ''beats'', ''--path'', ''mp3/track1.wav'']"

definition empty_sys :: sys where
  "empty_sys = \<lparr>dirs = [], files = [], store = [], trace = []\<rparr>"

text \<open>The sample host with an encoder that exits with status 1.\<close>

definition failing_world :: world where
  "failing_world = sample_world\<lparr>ffmpeg_result := \<lparr>sp_error = None, sp_status = Some 1\<rparr>\<rparr>"


section \<open>Facts about the runs\<close>

subsection \<open>The host calls, one by one\<close>

lemma emit_simps [simp]:
  "trace (emit e s) = trace s @ [e]" "dirs (emit e s) = dirs s"
  "files (emit e s) = files s" "store (emit e s) = store s"
  by (simp_all add: emit_def)

lemma spawnSync_simps [simp]:
  "fst (spawnSync w c a s) = (if a = [''-version''] then ffCheck_result w else ffmpeg_result w)"
  "trace (snd (spawnSync w c a s)) = trace s @ [Spawn c a]"
  "dirs (snd (spawnSync w c a s)) = dirs s"
  "store (snd (spawnSync w c a s)) = store s"
  "files (snd (spawnSync w c a s)) =
     (if a = [''-version''] then files s
      else (case ffmpeg_written w of None \<Rightarrow> files s | Some bs \<Rightarrow> AList.update (last a) bs (files s)))"
  by (simp_all add: spawnSync_def Let_def split: option.split)

lemma createClient_simps [simp]:
  "fst (createClient w u k s) = createClient_result w"
  "trace (snd (createClient w u k s)) = trace s @ [CreateClient u k]"
  "dirs (snd (createClient w u k s)) = dirs s"
  "files (snd (createClient w u k s)) = files s"
  "store (snd (createClient w u k s)) = store s"
  by (simp_all add: createClient_def)

lemma createSignedUrl_simps [simp]:
  "fst (createSignedUrl w b k n s) = createSignedUrl_result w"
  "trace (snd (createSignedUrl w b k n s)) = trace s @ [CreateSignedUrl b k n]"
  "dirs (snd (createSignedUrl w b k n s)) = dirs s"
  "files (snd (createSignedUrl w b k n s)) = files s"
  "store (snd (createSignedUrl w b k n s)) = store s"
  by (simp_all add: createSignedUrl_def)

lemma fetch_simps [simp]:
  "fst (fetch w u s) = fetch_result w"
  "trace (snd (fetch w u s)) = trace s @ [Fetch u]"
  "dirs (snd (fetch w u s)) = dirs s"
  "files (snd (fetch w u s)) = files s"
  "store (snd (fetch w u s)) = store s"
  by (simp_all add: fetch_def)

lemma mkdtempSync_simps [simp]:
  "fst (mkdtempSync w p s) = (case mkdtemp_result w of Throws e \<Rightarrow> Throws e | Returns sfx \<Rightarrow> Returns (p @ sfx))"
  "trace (snd (mkdtempSync w p s)) = trace s @ [Mkdtemp p]"
  "dirs (snd (mkdtempSync w p s)) =
     (case mkdtemp_result w of Throws e \<Rightarrow> dirs s | Returns sfx \<Rightarrow> List.insert (p @ sfx) (dirs s))"
  "files (snd (mkdtempSync w p s)) = files s"
  "store (snd (mkdtempSync w p s)) = store s"
  by (simp_all add: mkdtempSync_def Let_def split: outcome.split)

lemma writeFileSync_simps [simp]:
  "fst (writeFileSync w p bs s) = writeFile_result w"
  "trace (snd (writeFileSync w p bs s)) = trace s @ [WriteFile p bs]"
  "dirs (snd (writeFileSync w p bs s)) = dirs s"
  "files (snd (writeFileSync w p bs s)) =
     (case writeFile_result w of Throws e \<Rightarrow> files s | Returns u \<Rightarrow> AList.update p bs (files s))"
  "store (snd (writeFileSync w p bs s)) = store s"
  by (simp_all add: writeFileSync_def Let_def split: outcome.split)

lemma storage_upload_simps [simp]:
  "trace (snd (storage_upload w b k c opts s)) = trace s @ [Upload b k c opts]"
  "dirs (snd (storage_upload w b k c opts s)) = dirs s"
  "files (snd (storage_upload w b k c opts s)) = files s"
  by (simp_all add: storage_upload_def Let_def split: outcome.split option.split)

lemma storage_upload_upsert:
  "fst (storage_upload w b k c upsert_only s) =
     (case upload_result w of
        Throws e \<Rightarrow> Throws e
      | Returns (Some err) \<Rightarrow> Returns (Some err)
      | Returns None \<Rightarrow> (case c of None \<Rightarrow> Returns (Some ''stream error'') | Some bs \<Rightarrow> Returns None))"
  "store (snd (storage_upload w b k c upsert_only s)) =
     (case (upload_result w, c) of
        (Returns None, Some bs) \<Rightarrow> AList.update (b, k) \<lparr>content = bs, mime = None\<rparr> (store s)
      | _ \<Rightarrow> store s)"
  by (simp_all add: storage_upload_def upsert_only_def Let_def split: outcome.split option.split)

lemma getPublicUrl_simps [simp]:
  "fst (getPublicUrl w b k s) = publicUrl_of w b k"
  "trace (snd (getPublicUrl w b k s)) = trace s @ [GetPublicUrl b k]"
  "dirs (snd (getPublicUrl w b k s)) = dirs s"
  "files (snd (getPublicUrl w b k s)) = files s"
  "store (snd (getPublicUrl w b k s)) = store s"
  by (simp_all add: getPublicUrl_def)

lemma rmSync_simps [simp]:
  "fst (rmSync w d s) = rmSync_result w"
  "trace (snd (rmSync w d s)) = trace s @ [RmSync d]"
  "dirs (snd (rmSync w d s)) =
     (case rmSync_result w of Throws e \<Rightarrow> dirs s | Returns u \<Rightarrow> removeAll d (dirs s))"
  "store (snd (rmSync w d s)) = store s"
  by (simp_all add: rmSync_def Let_def split: outcome.split)

lemma cleared [simp]:
  "dirs (s\<lparr>trace := t\<rparr>) = dirs s" "files (s\<lparr>trace := t\<rparr>) = files s"
  "store (s\<lparr>trace := t\<rparr>) = store s" "trace (s\<lparr>trace := t\<rparr>) = t"
  by simp_all

lemma last_ffmpeg_args [simp]: "last (ffmpeg_args i out) = out"
  by (simp add: ffmpeg_args_def)

lemma ffmpeg_args_not_probe [simp]: "ffmpeg_args i out \<noteq> [''-version'']"
  by (simp add: ffmpeg_args_def)

lemma acquiresD:
  assumes "acquires w"
  obtains signed res sfx where
    "createSignedUrl_result w = Returns signed" "usable_url signed = Some (signed_url w)"
    "fetch_result w = Returns res" "ok res" "arrayBuffer res = Returns (downloaded w)"
    "mkdtemp_result w = Returns sfx" "scratch_dir w = path_join w (os_tmpdir w) ''preview-'' @ sfx"
    "writeFile_result w = Returns ()"
  using assms
  by (auto simp: acquires_def signing_fails_def fetch_fails_def signed_url_def downloaded_def
      scratch_dir_def split: outcome.splits option.splits)

lemma publishesD:
  assumes "publishes w"
  shows "\<not> ff_failed (ffmpeg_result w)" "ffmpeg_written w = Some (encoded w)"
    "upload_result w = Returns None"
  using assms by (auto simp: publishes_def encoded_def)

subsection \<open>The request handler\<close>

lemma handler_fails:
  "fst (handler w req s) = Throws ''SyntaxError: Unexpected strict mode reserved word''"
  "snd (handler w req s) = s"
  by (simp_all add: handler_def)

lemma handler_silent: "handler_events w req s = []"
  by (simp add: handler_events_def handler_def)

subsection \<open>The script, path by path\<close>

lemma main_publish_success:
  assumes "upload_result w = Returns None" and "map_of (files s) out = Some c"
  shows "main_publish w db dp tmp out s =
     (Returns 0,
      snd (rmSync w tmp
        (emit (ConsoleLog (''Public URL: '' @ publicUrl_of w db dp))
          (emit (ConsoleLog ''Preview uploaded successfully!'')
            (snd (getPublicUrl w db dp
              (snd (storage_upload w db dp (Some c) upsert_only
                (emit (ConsoleLog ''Uploading preview to Supabase storage...'') s)))))))))"
  using assms
  by (simp add: main_publish_def Let_def split_beta createReadStream_def storage_upload_upsert)

lemma main_transcode_success:
  assumes "publishes w"
  shows "main_transcode w db dp tmp i out s =
     (Returns 0,
      snd (rmSync w tmp
        (emit (ConsoleLog (''Public URL: '' @ publicUrl_of w db dp))
          (emit (ConsoleLog ''Preview uploaded successfully!'')
            (snd (getPublicUrl w db dp
              (snd (storage_upload w db dp (Some (encoded w)) upsert_only
                (emit (ConsoleLog ''Uploading preview to Supabase storage...'')
                  (snd (spawnSync w ''ffmpeg'' (ffmpeg_args i out)
                    (emit (ConsoleLog ''Running ffmpeg to create 30s preview...'') s))))))))))))"
  using publishesD [OF assms]
  by (simp add: main_transcode_def split_beta main_publish_success [where c = "encoded w"]
      AList.update_conv')

lemma main_transcode_failure:
  assumes "ff_failed (ffmpeg_result w)"
  shows "main_transcode w db dp tmp i out s =
     (Throws ''ffmpeg failed'',
      snd (spawnSync w ''ffmpeg'' (ffmpeg_args i out)
        (emit (ConsoleLog ''Running ffmpeg to create 30s preview...'') s)))"
  using assms by (simp add: main_transcode_def split_beta)

lemma main_try_acquires:
  assumes "acquires w"
  shows "main_try w sb (JStr p) db dp s =
     main_transcode w db dp (scratch_dir w) (input_path w p) (output_path w)
       (snd (writeFileSync w (input_path w p) (downloaded w)
          (snd (mkdtempSync w (path_join w (os_tmpdir w) ''preview-'')
             (snd (fetch w (signed_url w)
                (snd (createSignedUrl w sb (JStr p) 60
                   (emit (ConsoleLog ''Creating signed URL for source file...'') s)))))))))"
  by (rule acquiresD [OF assms])
    (simp add: main_try_def main_workspace_def split_beta extname_def Let_def
      input_path_def output_path_def)

lemma main_admits:
  assumes "truthy (get_prop (parseArgs argv) ''bucket'')"
    and "truthy (get_prop (parseArgs argv) ''path'')" and "admitted w"
  shows "main w argv s =
     (case main_try w (get_prop (parseArgs argv) ''bucket'') (get_prop (parseArgs argv) ''path'')
             (or_else (get_prop (parseArgs argv) ''destBucket'') (JStr ''beat-previews''))
             (or_else (get_prop (parseArgs argv) ''dest'') (default_dest w))
             (snd (createClient w (env_SUPABASE_URL w) (env_SUPABASE_SERVICE_ROLE_KEY w)
                (snd (spawnSync w ''ffmpeg'' [''-version''] s)))) of
        (Throws e, s3) \<Rightarrow> (Exit 1, emit (ConsoleError ''Error generating preview:'') s3)
      | (Returns code, s3) \<Rightarrow> (Exit code, s3))"
  using assms
  by (simp add: main_def admitted_def Let_def split_beta)

lemma main_success:
  assumes "truthy (get_prop (parseArgs argv) ''bucket'')" and "admitted w"
    and "acquires w" and "publishes w"
    and sp: "get_prop (parseArgs argv) ''path'' = JStr p" and "p \<noteq> []"
    and db: "db = or_else (get_prop (parseArgs argv) ''destBucket'') (JStr ''beat-previews'')"
    and key: "key = or_else (get_prop (parseArgs argv) ''dest'') (default_dest w)"
  shows "fst (main w argv s) = Exit 0"
    and "trace (snd (main w argv s)) = trace s @
           [Spawn ''ffmpeg'' [''-version''],
            CreateClient (env_SUPABASE_URL w) (env_SUPABASE_SERVICE_ROLE_KEY w),
            ConsoleLog ''Creating signed URL for source file...'',
            CreateSignedUrl (get_prop (parseArgs argv) ''bucket'') (JStr p) 60,
            Fetch (signed_url w), Mkdtemp (path_join w (os_tmpdir w) ''preview-''),
            WriteFile (input_path w p) (downloaded w),
            ConsoleLog ''Running ffmpeg to create 30s preview...'',
            Spawn ''ffmpeg'' (ffmpeg_args (input_path w p) (output_path w)),
            ConsoleLog ''Uploading preview to Supabase storage...'',
            Upload db key (Some (encoded w)) upsert_only, GetPublicUrl db key,
            ConsoleLog ''Preview uploaded successfully!'',
            ConsoleLog (''Public URL: '' @ publicUrl_of w db key),
            RmSync (scratch_dir w)]"
    and "store (snd (main w argv s)) =
           AList.update (db, key) \<lparr>content = encoded w, mime = None\<rparr> (store s)"
    and "dirs (snd (main w argv s)) =
           (case rmSync_result w of
              Throws e \<Rightarrow> List.insert (scratch_dir w) (dirs s)
            | Returns u \<Rightarrow> removeAll (scratch_dir w) (List.insert (scratch_dir w) (dirs s)))"
proof -
  let ?S = "snd (writeFileSync w (input_path w p) (downloaded w)
     (snd (mkdtempSync w (path_join w (os_tmpdir w) ''preview-'')
        (snd (fetch w (signed_url w)
           (snd (createSignedUrl w (get_prop (parseArgs argv) ''bucket'') (JStr p) 60
              (emit (ConsoleLog ''Creating signed URL for source file...'')
                 (snd (createClient w (env_SUPABASE_URL w) (env_SUPABASE_SERVICE_ROLE_KEY w)
                    (snd (spawnSync w ''ffmpeg'' [''-version''] s))))))))))))"
  have tp: "truthy (get_prop (parseArgs argv) ''path'')"
    using sp \<open>p \<noteq> []\<close> by simp
  have run: "main w argv s =
     (Exit 0,
      snd (rmSync w (scratch_dir w)
        (emit (ConsoleLog (''Public URL: '' @ publicUrl_of w db key))
          (emit (ConsoleLog ''Preview uploaded successfully!'')
            (snd (getPublicUrl w db key
              (snd (storage_upload w db key (Some (encoded w)) upsert_only
                (emit (ConsoleLog ''Uploading preview to Supabase storage...'')
                  (snd (spawnSync w ''ffmpeg'' (ffmpeg_args (input_path w p) (output_path w))
                    (emit (ConsoleLog ''Running ffmpeg to create 30s preview...'') ?S))))))))))))"
    by (simp add: main_admits [OF assms(1) tp assms(2)] sp main_try_acquires [OF assms(3)]
        main_transcode_success [OF assms(4)] db key)
  show "fst (main w argv s) = Exit 0"
    by (simp add: run)
  show "trace (snd (main w argv s)) = trace s @
           [Spawn ''ffmpeg'' [''-version''],
            CreateClient (env_SUPABASE_URL w) (env_SUPABASE_SERVICE_ROLE_KEY w),
            ConsoleLog ''Creating signed URL for source file...'',
            CreateSignedUrl (get_prop (parseArgs argv) ''bucket'') (JStr p) 60,
            Fetch (signed_url w), Mkdtemp (path_join w (os_tmpdir w) ''preview-''),
            WriteFile (input_path w p) (downloaded w),
            ConsoleLog ''Running ffmpeg to create 30s preview...'',
            Spawn ''ffmpeg'' (ffmpeg_args (input_path w p) (output_path w)),
            ConsoleLog ''Uploading preview to Supabase storage...'',
            Upload db key (Some (encoded w)) upsert_only, GetPublicUrl db key,
            ConsoleLog ''Preview uploaded successfully!'',
            ConsoleLog (''Public URL: '' @ publicUrl_of w db key),
            RmSync (scratch_dir w)]"
    by (simp add: run)
  show "store (snd (main w argv s)) =
           AList.update (db, key) \<lparr>content = encoded w, mime = None\<rparr> (store s)"
    using publishesD [OF assms(4)] by (simp add: run storage_upload_upsert)
  show "dirs (snd (main w argv s)) =
           (case rmSync_result w of
              Throws e \<Rightarrow> List.insert (scratch_dir w) (dirs s)
            | Returns u \<Rightarrow> removeAll (scratch_dir w) (List.insert (scratch_dir w) (dirs s)))"
    by (rule acquiresD [OF assms(3)]) (simp add: run split: outcome.split)
qed

lemma main_transcode_fails:
  assumes "truthy (get_prop (parseArgs argv) ''bucket'')" and "admitted w"
    and "acquires w" and "ff_failed (ffmpeg_result w)"
    and sp: "get_prop (parseArgs argv) ''path'' = JStr p" and "p \<noteq> []"
  shows "fst (main w argv s) = Exit 1"
    and "trace (snd (main w argv s)) = trace s @
           [Spawn ''ffmpeg'' [''-version''],
            CreateClient (env_SUPABASE_URL w) (env_SUPABASE_SERVICE_ROLE_KEY w),
            ConsoleLog ''Creating signed URL for source file...'',
            CreateSignedUrl (get_prop (parseArgs argv) ''bucket'') (JStr p) 60,
            Fetch (signed_url w), Mkdtemp (path_join w (os_tmpdir w) ''preview-''),
            WriteFile (input_path w p) (downloaded w),
            ConsoleLog ''Running ffmpeg to create 30s preview...'',
            Spawn ''ffmpeg'' (ffmpeg_args (input_path w p) (output_path w)),
            ConsoleError ''Error generating preview:'']"
    and "dirs (snd (main w argv s)) = List.insert (scratch_dir w) (dirs s)"
    and "store (snd (main w argv s)) = store s"
proof -
  let ?S = "snd (writeFileSync w (input_path w p) (downloaded w)
     (snd (mkdtempSync w (path_join w (os_tmpdir w) ''preview-'')
        (snd (fetch w (signed_url w)
           (snd (createSignedUrl w (get_prop (parseArgs argv) ''bucket'') (JStr p) 60
              (emit (ConsoleLog ''Creating signed URL for source file...'')
                 (snd (createClient w (env_SUPABASE_URL w) (env_SUPABASE_SERVICE_ROLE_KEY w)
                    (snd (spawnSync w ''ffmpeg'' [''-version''] s))))))))))))"
  have tp: "truthy (get_prop (parseArgs argv) ''path'')"
    using sp \<open>p \<noteq> []\<close> by simp
  have run: "main w argv s =
     (Exit 1,
      emit (ConsoleError ''Error generating preview:'')
        (snd (spawnSync w ''ffmpeg'' (ffmpeg_args (input_path w p) (output_path w))
          (emit (ConsoleLog ''Running ffmpeg to create 30s preview...'') ?S))))"
    by (simp add: main_admits [OF assms(1) tp assms(2)] sp main_try_acquires [OF assms(3)]
        main_transcode_failure [OF assms(4)])
  show "fst (main w argv s) = Exit 1"
    by (simp add: run)
  show "trace (snd (main w argv s)) = trace s @
           [Spawn ''ffmpeg'' [''-version''],
            CreateClient (env_SUPABASE_URL w) (env_SUPABASE_SERVICE_ROLE_KEY w),
            ConsoleLog ''Creating signed URL for source file...'',
            CreateSignedUrl (get_prop (parseArgs argv) ''bucket'') (JStr p) 60,
            Fetch (signed_url w), Mkdtemp (path_join w (os_tmpdir w) ''preview-''),
            WriteFile (input_path w p) (downloaded w),
            ConsoleLog ''Running ffmpeg to create 30s preview...'',
            Spawn ''ffmpeg'' (ffmpeg_args (input_path w p) (output_path w)),
            ConsoleError ''Error generating preview:'']"
    by (simp add: run)
  show "dirs (snd (main w argv s)) = List.insert (scratch_dir w) (dirs s)"
    by (rule acquiresD [OF assms(3)]) (simp add: run)
  show "store (snd (main w argv s)) = store s"
    by (simp add: run)
qed

subsection \<open>The sample runs\<close>

lemma sample_argv_facts:
  "get_prop (parseArgs sample_argv) ''bucket'' = JStr ''beats''"
  "get_prop (parseArgs sample_argv) ''path'' = JStr ''mp3/track1.wav''"
  "get_prop (parseArgs sample_argv) ''destBucket'' = JUndefined"
  "get_prop (parseArgs sample_argv) ''dest'' = JUndefined"
  by (simp_all add: sample_argv_def parseArgs_def get_prop_def startsWith_def set_prop_def)

lemma sample_world_facts:
  "admitted sample_world" "acquires sample_world" "publishes sample_world"
  "default_dest sample_world = JStr ''previews/preview_7.mp3''"
  "scratch_dir sample_world = ''/tmp/preview-abc123''"
  "input_path sample_world p = ''/tmp/preview-abc123/input.wav''"
  "output_path sample_world = ''/tmp/preview-abc123/preview.mp3''"
  "signed_url sample_world = ''https://demo/signed''"
  "downloaded sample_world = [1, 2, 3]"
  "encoded sample_world = [9, 9]"
  by (simp_all add: sample_world_def admitted_def acquires_def publishes_def env_missing_def
      signing_fails_def fetch_fails_def usable_url_def ff_failed_def default_dest_def
      show_nat.simps [of 7] scratch_dir_def input_path_def output_path_def
      signed_url_def downloaded_def encoded_def)

lemma failing_world_facts:
  "admitted failing_world" "acquires failing_world" "ff_failed (ffmpeg_result failing_world)"
  "scratch_dir failing_world = ''/tmp/preview-abc123''"
  by (simp_all add: failing_world_def sample_world_def admitted_def acquires_def env_missing_def
      signing_fails_def fetch_fails_def usable_url_def ff_failed_def scratch_dir_def)


subsection \<open>Every spawn and every upload of a run\<close>










subsection \<open>Uploads come after the encoder\<close>

lemma upload_guarded_quiet:
  "upload_guarded w evs \<Longrightarrow> \<forall>e\<in>set rest. \<not> is_upload e \<Longrightarrow> upload_guarded w (evs @ rest)"
  unfolding upload_guarded_def
  by (auto simp: nth_append)

lemma upload_guarded_after:
  "upload_guarded w evs \<Longrightarrow> \<not> ff_failed (ffmpeg_result w) \<Longrightarrow>
   Spawn ''ffmpeg'' (ffmpeg_args i out) \<in> set evs \<Longrightarrow> upload_guarded w (evs @ rest)"
  unfolding upload_guarded_def
  by (auto simp: nth_append)

lemma upload_guardedD:
  "upload_guarded w (pre @ e # post) \<Longrightarrow> is_upload e \<Longrightarrow>
   \<not> ff_failed (ffmpeg_result w) \<and> (\<exists>i out. Spawn ''ffmpeg'' (ffmpeg_args i out) \<in> set pre)"
  unfolding upload_guarded_def
  by (drule spec [of _ "length pre"]) simp

lemma upload_guarded_Nil: "upload_guarded w []"
  by (simp add: upload_guarded_def)

lemma guarded_quiet_list:
  assumes "\<forall>e \<in> set evs. \<not> is_upload e"
  shows "upload_guarded w evs"
  using upload_guarded_quiet [OF upload_guarded_Nil assms] by simp

lemma mp_guarded:
  assumes "upload_guarded w (trace s)" and "\<not> ff_failed (ffmpeg_result w)"
    and "Spawn ''ffmpeg'' (ffmpeg_args i out) \<in> set (trace s)"
  shows "upload_guarded w (trace (snd (main_publish w db dp tmp outputPath s)))"
  using assms
  by (auto simp: main_publish_def Let_def split_beta
      intro: upload_guarded_after split: outcome.split option.split)

lemma mt_guarded:
  assumes "upload_guarded w (trace s)"
  shows "upload_guarded w (trace (snd (main_transcode w db dp tmp i out s)))"
proof (cases "ff_failed (ffmpeg_result w)")
  case True
  then show ?thesis
    using assms by (auto simp: main_transcode_failure intro!: upload_guarded_quiet)
next
  case False
  have "upload_guarded w (trace (snd (spawnSync w ''ffmpeg'' (ffmpeg_args i out)
          (emit (ConsoleLog ''Running ffmpeg to create 30s preview...'') s))))"
    using assms by (auto intro!: upload_guarded_quiet)
  then show ?thesis
    using False
    by (auto simp: main_transcode_def split_beta intro!: mp_guarded [where i = i and out = out])
qed

lemma mw_guarded:
  assumes "upload_guarded w (trace s)"
  shows "upload_guarded w (trace (snd (main_workspace w sp db dp res s)))"
  using assms
  by (auto simp: main_workspace_def split_beta Let_def
      intro!: mt_guarded upload_guarded_quiet split: outcome.split)

lemma mtry_guarded:
  assumes "upload_guarded w (trace s)"
  shows "upload_guarded w (trace (snd (main_try w sb sp db dp s)))"
  using assms
  by (auto simp: main_try_def split_beta
      intro!: mw_guarded upload_guarded_quiet split: outcome.split option.split)

lemma main_guarded: "upload_guarded w (main_events w argv s)"
proof -
  let ?S = "snd (createClient w (env_SUPABASE_URL w) (env_SUPABASE_SERVICE_ROLE_KEY w)
              (snd (spawnSync w ''ffmpeg'' [''-version''] (s\<lparr>trace := []\<rparr>))))"
  have S: "upload_guarded w (trace ?S)"
    by (rule guarded_quiet_list) simp
  have T: "upload_guarded w (trace (snd (main_try w sb sp db dp ?S)))" for sb sp db dp
    by (rule mtry_guarded [OF S])
  have T2: "upload_guarded w (trace (snd (main_try w sb sp db dp ?S)) @ [ConsoleError m])"
    for sb sp db dp m
    by (rule upload_guarded_quiet [OF T]) simp
  show ?thesis
    apply (simp add: main_events_def main_def Let_def split_beta T T2 split: outcome.split)
    apply (auto intro!: guarded_quiet_list)
    done
qed

lemma guarded_no_upload:
  assumes "upload_guarded w evs" and "ff_failed (ffmpeg_result w)"
  shows "\<forall>e \<in> set evs. \<not> is_upload e"
  using assms by (auto simp: upload_guarded_def in_set_conv_nth)

subsection \<open>A failed encoder leaves the store as it was\<close>

lemma mw_store_failed:
  assumes "ff_failed (ffmpeg_result w)"
  shows "store (snd (main_workspace w sp db dp res s)) = store s"
  using assms
  by (simp add: main_workspace_def split_beta Let_def main_transcode_failure
      split: outcome.split)

lemma mtry_store_failed:
  assumes "ff_failed (ffmpeg_result w)"
  shows "store (snd (main_try w sb sp db dp s)) = store s"
  using assms
  by (simp add: main_try_def split_beta mw_store_failed split: outcome.split option.split)

lemma main_store_failed:
  assumes "ff_failed (ffmpeg_result w)"
  shows "store (snd (main w argv s)) = store s"
  using assms
  by (simp add: main_def Let_def split_beta mtry_store_failed split: outcome.split)

subsection \<open>The flag table\<close>

lemma flag_name:
  assumes "startsWith a ''--''"
  shows "a = ''--'' @ drop 2 a"
proof -
  have "take 2 a = ''--''"
    using assms by (simp add: startsWith_def numeral_2_eq_2)
  then have "take 2 a @ drop 2 a = ''--'' @ drop 2 a"
    by simp
  then show ?thesis
    by simp
qed

lemma map_of_set_prop:
  "map_of (set_prop out k v) k' =
     (if k = k' \<and> k \<noteq> ''__proto__'' then Some v else map_of out k')"
  by (simp add: set_prop_def AList.update_conv')

lemma parseArgs_loop_untouched:
  "''--'' @ k \<notin> set args \<Longrightarrow> map_of (parseArgs_loop args out) k = map_of out k"
proof (induction args out rule: parseArgs_loop.induct)
  case (1 out)
  then show ?case by simp
next
  case (2 a out)
  then show ?case
    using flag_name [of a] by (auto simp: map_of_set_prop)
next
  case (3 a b rest out)
  then show ?case
    using flag_name [of a] by (auto simp: map_of_set_prop)
qed


lemma parseArgs_loop_reaches_flag:
  "startsWith f ''--'' \<Longrightarrow>
   \<exists>out'. parseArgs_loop (pre @ f # rest) out = parseArgs_loop (f # rest) out'"
proof (induction pre out rule: parseArgs_loop.induct)
  case (1 out)
  then show ?case by auto
next
  case (2 a out)
  then show ?case by auto
next
  case (3 a b r out)
  then show ?case by auto
qed

lemma bare_flag_step:
  assumes "k \<noteq> ''__proto__''" and "''--'' @ k \<notin> set rest"
    and "case rest of [] \<Rightarrow> True | b # r \<Rightarrow> startsWith b ''--''"
  shows "map_of (parseArgs_loop ((''--'' @ k) # rest) out) k = Some (JBool True)"
proof (cases rest)
  case Nil
  then show ?thesis
    using assms(1) by (simp add: startsWith_def map_of_set_prop)
next
  case (Cons b r)
  with assms(3) have b: "startsWith b ''--''"
    by simp
  have "parseArgs_loop ((''--'' @ k) # b # r) out =
          parseArgs_loop (b # r) (set_prop out k (JBool True))"
    using b by (simp add: startsWith_def)
  then show ?thesis
    using assms(1,2) Cons by (simp add: parseArgs_loop_untouched map_of_set_prop)
qed

subsection \<open>How the script ends\<close>

lemma mp_fst:
  "fst (main_publish w db dp tmp out s) = Returns c \<Longrightarrow> c = 0 \<and> upload_result w = Returns None"
  by (auto simp: main_publish_def Let_def split_beta storage_upload_upsert
      split: outcome.splits option.splits)

lemma mt_fst:
  "fst (main_transcode w db dp tmp i out s) = Returns c \<Longrightarrow>
   c = 0 \<and> \<not> ff_failed (ffmpeg_result w) \<and> upload_result w = Returns None"
  by (auto simp: main_transcode_def split_beta dest: mp_fst split: if_splits)

lemma mw_fst:
  "fst (main_workspace w sp db dp res s) = Returns c \<Longrightarrow>
   c = 0 \<and> \<not> ff_failed (ffmpeg_result w) \<and> upload_result w = Returns None"
  by (auto simp: main_workspace_def split_beta Let_def dest: mt_fst
      split: outcome.splits)

lemma mtry_fst:
  "fst (main_try w sb sp db dp s) = Returns c \<Longrightarrow>
   c = 0 \<and> \<not> signing_fails w \<and> \<not> fetch_fails w \<and>
   \<not> ff_failed (ffmpeg_result w) \<and> upload_result w = Returns None"
  by (auto simp: main_try_def split_beta signing_fails_def fetch_fails_def dest: mw_fst
      split: outcome.splits option.splits if_splits)

lemma main_ends:
  assumes "truthy (get_prop (parseArgs argv) ''bucket'')"
    and "truthy (get_prop (parseArgs argv) ''path'')" and "admitted w"
  shows "fst (main w argv s) = Exit 0 \<or> fst (main w argv s) = Exit 1"
    and "fst (main w argv s) = Exit 0 \<Longrightarrow>
           \<not> signing_fails w \<and> \<not> fetch_fails w \<and>
           \<not> ff_failed (ffmpeg_result w) \<and> upload_result w = Returns None"
  using mtry_fst [of w "get_prop (parseArgs argv) ''bucket''" "get_prop (parseArgs argv) ''path''"
      "or_else (get_prop (parseArgs argv) ''destBucket'') (JStr ''beat-previews'')"
      "or_else (get_prop (parseArgs argv) ''dest'') (default_dest w)"
      "snd (createClient w (env_SUPABASE_URL w) (env_SUPABASE_SERVICE_ROLE_KEY w)
                (snd (spawnSync w ''ffmpeg'' [''-version''] s)))"]
  by (auto simp: main_admits [OF assms] split_beta split: outcome.splits)






subsection \<open>The log only grows\<close>

lemma mp_keeps:
  "e \<in> set (trace s) \<Longrightarrow> e \<in> set (trace (snd (main_publish w db dp tmp out s)))"
  by (simp add: main_publish_def Let_def split_beta split: outcome.split option.split)

lemma mt_keeps:
  "e \<in> set (trace s) \<Longrightarrow> e \<in> set (trace (snd (main_transcode w db dp tmp i out s)))"
  by (simp add: main_transcode_def split_beta mp_keeps)

lemma mw_keeps:
  "e \<in> set (trace s) \<Longrightarrow> e \<in> set (trace (snd (main_workspace w sp db dp res s)))"
  by (simp add: main_workspace_def split_beta Let_def mt_keeps split: outcome.split)

lemma mtry_signs:
  "CreateSignedUrl sb sp 60 \<in> set (trace (snd (main_try w sb sp db dp s)))"
  by (simp add: main_try_def split_beta mw_keeps split: outcome.split option.split)

lemma main_signs:
  assumes "truthy (get_prop (parseArgs argv) ''bucket'')"
    and "truthy (get_prop (parseArgs argv) ''path'')" and "admitted w"
  shows "CreateSignedUrl (get_prop (parseArgs argv) ''bucket'') (get_prop (parseArgs argv) ''path'') 60
           \<in> set (main_events w argv s)"
  by (simp add: main_events_def main_admits [OF assms] split_beta mtry_signs split: outcome.split)

subsection \<open>Writing twice to one key\<close>



section \<open>The scratch directory\<close>

text \<open>
  C1. The scratch directory is gone once an invocation that created it completes, on every
  exit path. The script removes it on its success path only (line 470); a failure after
  \<^verbatim>\<open>mkdtempSync\<close> is thrown into the \<^verbatim>\<open>catch\<close> of lines 473 to 475, which exits without
  removing anything. At the sample arguments, with an encoder that exits with status 1, the
  script makes the directory \<^verbatim>\<open>/tmp/preview-abc123\<close>, never calls \<^verbatim>\<open>rmSync\<close>, exits with 1,
  and the directory is still there.
\<close>

theorem scratch_dir_left_after_failed_transcode:
  "fst (main failing_world sample_argv empty_sys) = Exit 1 \<and>
   Mkdtemp ''/tmp/preview-'' \<in> set (main_events failing_world sample_argv empty_sys) \<and>
   RmSync ''/tmp/preview-abc123'' \<notin> set (main_events failing_world sample_argv empty_sys) \<and>
   dirs (snd (main failing_world sample_argv empty_sys)) = [''/tmp/preview-abc123'']"
proof -
  have bucket: "truthy (get_prop (parseArgs sample_argv) ''bucket'')"
    by (simp add: sample_argv_facts)
  have tmp: "path_join failing_world (os_tmpdir failing_world) ''preview-'' = ''/tmp/preview-''"
    by (simp add: failing_world_def sample_world_def)
  note m = main_transcode_fails [OF bucket failing_world_facts(1,2,3) sample_argv_facts(2)]
  show ?thesis
    by (simp add: m main_events_def tmp failing_world_facts(4) empty_sys_def)
qed

theorem scratch_dir_left_after_failed_transcode_witness:
  "fst (main failing_world sample_argv empty_sys) \<noteq> Exit 0 \<and>
   ''/tmp/preview-abc123'' \<in> set (dirs (snd (main failing_world sample_argv empty_sys)))"
  using scratch_dir_left_after_failed_transcode by simp

section \<open>What is uploaded\<close>




section \<open>The encoder's arguments\<close>



section \<open>A host without the encoder\<close>

text \<open>
  C4. When the version probe of the encoder fails to spawn, neither entry point makes a
  network call to the source store: no signed URL is requested and nothing is fetched.
\<close>

theorem probe_failure_no_source_call:
  assumes "sp_error (ffCheck_result w) \<noteq> None"
  shows "(\<forall>e \<in> set (handler_events w req s). \<not> is_source_call e) \<and>
         (\<forall>e \<in> set (main_events w argv s). \<not> is_source_call e)"
  using assms
  by (simp add: handler_silent main_events_def main_def Let_def split_beta)

theorem probe_failure_no_source_call_witness:
  "sp_error (ffCheck_result
      (sample_world\<lparr>ffCheck_result := \<lparr>sp_error = Some ''ENOENT'', sp_status = None\<rparr>\<rparr>)) \<noteq> None \<and>
   \<not> is_source_call (Spawn ''ffmpeg'' [''-version'']) \<and>
   main_events
      (sample_world\<lparr>ffCheck_result := \<lparr>sp_error = Some ''ENOENT'', sp_status = None\<rparr>\<rparr>)
      sample_argv empty_sys =
     [Spawn ''ffmpeg'' [''-version''],
      ConsoleError ''ERROR: ffmpeg not found on PATH. Install ffmpeg first (brew/apt/winget/choco)'']"
  using probe_failure_no_source_call
    [of "sample_world\<lparr>ffCheck_result := \<lparr>sp_error = Some ''ENOENT'', sp_status = None\<rparr>\<rparr>"
        sample_request empty_sys sample_argv]
  by (simp add: main_events_def main_def Let_def split_beta
      sample_world_def sample_argv_def empty_sys_def env_missing_def
      get_prop_def parseArgs_def startsWith_def set_prop_def)

section \<open>Publication only after a successful transcode\<close>

text \<open>
  C5. In both entry points an upload is made only after the transcoding call, and only when
  that call reported no spawn error and exit status 0. When the encoder fails to spawn or
  exits with another status, no upload is attempted and the store is left as it was, so
  nothing of a failed transcode is published.
\<close>

theorem upload_only_after_transcode:
  "(handler_events w req s = pre @ Upload b k c opts # post \<longrightarrow>
      sp_error (ffmpeg_result w) = None \<and> sp_status (ffmpeg_result w) = Some 0 \<and>
      (\<exists>i out. Spawn ''ffmpeg'' (ffmpeg_args i out) \<in> set pre))
   \<and> (main_events w argv s = pre' @ Upload b' k' c' opts' # post' \<longrightarrow>
      sp_error (ffmpeg_result w) = None \<and> sp_status (ffmpeg_result w) = Some 0 \<and>
      (\<exists>i out. Spawn ''ffmpeg'' (ffmpeg_args i out) \<in> set pre'))
   \<and> (sp_error (ffmpeg_result w) \<noteq> None \<or> sp_status (ffmpeg_result w) \<noteq> Some 0 \<longrightarrow>
      (\<forall>e \<in> set (handler_events w req s). \<not> is_upload e) \<and>
      (\<forall>e \<in> set (main_events w argv s). \<not> is_upload e) \<and>
      store (snd (handler w req s)) = store s \<and>
      store (snd (main w argv s)) = store s)"
proof (intro conjI impI)
  assume "handler_events w req s = pre @ Upload b k c opts # post"
  then have False
    by (simp add: handler_silent)
  then show "sp_error (ffmpeg_result w) = None" and "sp_status (ffmpeg_result w) = Some 0"
    and "\<exists>i out. Spawn ''ffmpeg'' (ffmpeg_args i out) \<in> set pre"
    by simp_all
next
  assume "main_events w argv s = pre' @ Upload b' k' c' opts' # post'"
  with main_guarded [of w argv s]
  have "upload_guarded w (pre' @ Upload b' k' c' opts' # post')"
    by simp
  from upload_guardedD [OF this]
  show "sp_error (ffmpeg_result w) = None" and "sp_status (ffmpeg_result w) = Some 0"
    and "\<exists>i out. Spawn ''ffmpeg'' (ffmpeg_args i out) \<in> set pre'"
    by (simp_all add: ff_failed_def)
next
  assume "sp_error (ffmpeg_result w) \<noteq> None \<or> sp_status (ffmpeg_result w) \<noteq> Some 0"
  then have failed: "ff_failed (ffmpeg_result w)"
    by (simp add: ff_failed_def)
  show "\<forall>e \<in> set (handler_events w req s). \<not> is_upload e"
    by (simp add: handler_silent)
  show "\<forall>e \<in> set (main_events w argv s). \<not> is_upload e"
    by (rule guarded_no_upload [OF main_guarded failed])
  show "store (snd (handler w req s)) = store s"
    by (simp add: handler_fails)
  show "store (snd (main w argv s)) = store s"
    by (rule main_store_failed [OF failed])
qed

theorem upload_only_after_transcode_witness:
  "main_events sample_world sample_argv empty_sys =
     [Spawn ''ffmpeg'' [''-version''],
      CreateClient (Some ''https://demo.supabase.co'') (Some ''service-key''),
      ConsoleLog ''Creating signed URL for source file...'',
      CreateSignedUrl (JStr ''beats'') (JStr ''mp3/track1.wav'') 60,
      Fetch ''https://demo/signed'', Mkdtemp ''/tmp/preview-'',
      WriteFile ''/tmp/preview-abc123/input.wav'' [1, 2, 3],
      ConsoleLog ''Running ffmpeg to create 30s preview...'',
      Spawn ''ffmpeg'' (ffmpeg_args ''/tmp/preview-abc123/input.wav''
                          ''/tmp/preview-abc123/preview.mp3''),
      ConsoleLog ''Uploading preview to Supabase storage...'']
     @ Upload (JStr ''beat-previews'') (JStr ''previews/preview_7.mp3'') (Some [9, 9]) upsert_only
     # [GetPublicUrl (JStr ''beat-previews'') (JStr ''previews/preview_7.mp3''),
        ConsoleLog ''Preview uploaded successfully!'',
        ConsoleLog ''Public URL: https://demo/public'',
        RmSync ''/tmp/preview-abc123''] \<and>
   sp_error (ffmpeg_result sample_world) = None \<and>
   sp_status (ffmpeg_result sample_world) = Some 0 \<and>
   sp_status (ffmpeg_result failing_world) \<noteq> Some 0 \<and>
   filter is_upload (main_events failing_world sample_argv empty_sys) = [] \<and>
   store (snd (main failing_world sample_argv empty_sys)) = []"
proof -
  have bucket: "truthy (get_prop (parseArgs sample_argv) ''bucket'')"
    by (simp add: sample_argv_facts)
  note m = main_success [OF bucket sample_world_facts(1,2,3) sample_argv_facts(2) _ refl refl]
  have ev: "main_events sample_world sample_argv empty_sys =
     [Spawn ''ffmpeg'' [''-version''],
      CreateClient (Some ''https://demo.supabase.co'') (Some ''service-key''),
      ConsoleLog ''Creating signed URL for source file...'',
      CreateSignedUrl (JStr ''beats'') (JStr ''mp3/track1.wav'') 60,
      Fetch ''https://demo/signed'', Mkdtemp ''/tmp/preview-'',
      WriteFile ''/tmp/preview-abc123/input.wav'' [1, 2, 3],
      ConsoleLog ''Running ffmpeg to create 30s preview...'',
      Spawn ''ffmpeg'' (ffmpeg_args ''/tmp/preview-abc123/input.wav''
                          ''/tmp/preview-abc123/preview.mp3''),
      ConsoleLog ''Uploading preview to Supabase storage...'']
     @ Upload (JStr ''beat-previews'') (JStr ''previews/preview_7.mp3'') (Some [9, 9]) upsert_only
     # [GetPublicUrl (JStr ''beat-previews'') (JStr ''previews/preview_7.mp3''),
        ConsoleLog ''Preview uploaded successfully!'',
        ConsoleLog ''Public URL: https://demo/public'',
        RmSync ''/tmp/preview-abc123'']"
    by (simp add: main_events_def m(2) sample_argv_facts sample_world_facts or_else_def)
      (simp add: sample_world_def)
  have failed: "sp_error (ffmpeg_result failing_world) \<noteq> None
      \<or> sp_status (ffmpeg_result failing_world) \<noteq> Some 0"
    by (simp add: failing_world_def)
  from upload_only_after_transcode [where w = sample_world and argv = sample_argv
      and s = empty_sys, THEN conjunct2, THEN conjunct1, rule_format, OF ev]
    upload_only_after_transcode [where w = failing_world and req = sample_request
      and argv = sample_argv and s = empty_sys, THEN conjunct2, THEN conjunct2, rule_format,
      OF failed]
  have "(sp_error (ffmpeg_result sample_world) = None \<and>
      sp_status (ffmpeg_result sample_world) = Some 0) \<and>
     ((\<forall>e \<in> set (main_events failing_world sample_argv empty_sys). \<not> is_upload e) \<and>
      store (snd (main failing_world sample_argv empty_sys)) = store empty_sys)"
    by blast
  moreover have "store empty_sys = []"
    by (simp add: empty_sys_def)
  moreover have "sp_status (ffmpeg_result failing_world) \<noteq> Some 0"
    by (simp add: failing_world_def)
  ultimately show ?thesis
    by (simp add: ev filter_empty_conv)
qed

section \<open>Requests the handler should reject\<close>

text \<open>
  C6. The request handler answers 405 to a request whose method is not POST, 500 when an
  environment value is missing, and 400 when the body is not JSON or lacks a required
  field. Its source writes these three answers (lines 8, 13 to 16, 19 and 23), but the
  module that holds it does not load, so none is ever given: a GET request, a POST on a
  host without \<^verbatim>\<open>SUPABASE_URL\<close>, and a POST whose body is not JSON all fail with the
  SyntaxError of the module, with no response and no status.
\<close>

theorem handler_answers_no_request:
  "status_of (fst (handler sample_world (sample_request\<lparr>req_method := ''GET''\<rparr>) empty_sys))
     = None \<and>
   status_of (fst (handler (sample_world\<lparr>env_SUPABASE_URL := None\<rparr>) sample_request empty_sys))
     = None \<and>
   status_of (fst (handler sample_world (sample_request\<lparr>req_json := None\<rparr>) empty_sys))
     = None \<and>
   fst (handler sample_world (sample_request\<lparr>req_method := ''GET''\<rparr>) empty_sys) =
     Throws ''SyntaxError: Unexpected strict mode reserved word''"
  by (simp add: handler_def)

theorem handler_answers_no_request_witness:
  "status_of (fst (handler sample_world (sample_request\<lparr>req_method := ''GET''\<rparr>) empty_sys))
     \<noteq> Some 405 \<and>
   status_of (fst (handler (sample_world\<lparr>env_SUPABASE_URL := None\<rparr>) sample_request empty_sys))
     \<noteq> Some 500 \<and>
   status_of (fst (handler sample_world (sample_request\<lparr>req_json := None\<rparr>) empty_sys))
     \<noteq> Some 400"
  using handler_answers_no_request by simp

section \<open>Exit codes of the script\<close>



section \<open>Publishing twice\<close>



section \<open>The success path\<close>

text \<open>
  C9. On the success path a failure of the removal of the scratch directory changes
  nothing. The script does this: when \<^verbatim>\<open>fs.rmSync\<close> throws, it has printed the public URL
  and exits with 0; the removal was attempted, and the directory is still there. The
  request handler is written to do the same (lines 77 to 79), but on that very path it
  binds and reads \<^verbatim>\<open>public\<close>, so its module does not load: on a host where every stage
  would succeed and the removal would throw, it returns no response, not 200.
\<close>

theorem removal_failure_script_and_handler:
  assumes "rmSync_result w = Throws e" and "admitted w" and "acquires w" and "publishes w"
  shows "(truthy (get_prop (parseArgs argv) ''bucket'') \<and>
          get_prop (parseArgs argv) ''path'' = JStr q \<and> q \<noteq> [] \<longrightarrow>
            fst (main w argv s) = Exit 0 \<and>
            ConsoleLog (''Public URL: '' @ publicUrl_of w
                (or_else (get_prop (parseArgs argv) ''destBucket'') (JStr ''beat-previews''))
                (or_else (get_prop (parseArgs argv) ''dest'') (default_dest w)))
              \<in> set (main_events w argv s) \<and>
            last (main_events w argv s) = RmSync (scratch_dir w) \<and>
            scratch_dir w \<in> set (dirs (snd (main w argv s))))
       \<and> status_of (fst (handler w req s)) = None
       \<and> fst (handler w req s) = Throws ''SyntaxError: Unexpected strict mode reserved word''"
proof (intro conjI impI)
  assume a: "truthy (get_prop (parseArgs argv) ''bucket'') \<and>
            get_prop (parseArgs argv) ''path'' = JStr q \<and> q \<noteq> []"
  then have b: "truthy (get_prop (parseArgs argv) ''bucket'')"
    and pq: "get_prop (parseArgs argv) ''path'' = JStr q" and q: "q \<noteq> []"
    by simp_all
  note m = main_success [OF b assms(2,3,4) pq q refl refl]
  show "fst (main w argv s) = Exit 0"
    by (rule m(1))
  show "ConsoleLog (''Public URL: '' @ publicUrl_of w
                (or_else (get_prop (parseArgs argv) ''destBucket'') (JStr ''beat-previews''))
                (or_else (get_prop (parseArgs argv) ''dest'') (default_dest w)))
              \<in> set (main_events w argv s)"
    by (simp add: main_events_def m(2))
  show "last (main_events w argv s) = RmSync (scratch_dir w)"
    by (simp add: main_events_def m(2))
  show "scratch_dir w \<in> set (dirs (snd (main w argv s)))"
    by (simp add: m(4) assms(1))
next
  show "status_of (fst (handler w req s)) = None"
    by (simp add: handler_fails)
next
  show "fst (handler w req s) = Throws ''SyntaxError: Unexpected strict mode reserved word''"
    by (rule handler_fails)
qed

theorem removal_failure_script_and_handler_witness:
  "rmSync_result (sample_world\<lparr>rmSync_result := Throws ''EBUSY''\<rparr>) = Throws ''EBUSY'' \<and>
   admitted (sample_world\<lparr>rmSync_result := Throws ''EBUSY''\<rparr>) \<and>
   acquires (sample_world\<lparr>rmSync_result := Throws ''EBUSY''\<rparr>) \<and>
   publishes (sample_world\<lparr>rmSync_result := Throws ''EBUSY''\<rparr>) \<and>
   fst (main (sample_world\<lparr>rmSync_result := Throws ''EBUSY''\<rparr>) sample_argv empty_sys) = Exit 0 \<and>
   ConsoleLog ''Public URL: https://demo/public''
     \<in> set (main_events (sample_world\<lparr>rmSync_result := Throws ''EBUSY''\<rparr>) sample_argv empty_sys) \<and>
   ''/tmp/preview-abc123'' \<in> set (dirs (snd (main
      (sample_world\<lparr>rmSync_result := Throws ''EBUSY''\<rparr>) sample_argv empty_sys))) \<and>
   status_of (fst (handler (sample_world\<lparr>rmSync_result := Throws ''EBUSY''\<rparr>)
      sample_request empty_sys)) \<noteq> Some 200"
  using removal_failure_script_and_handler
    [where w = "sample_world\<lparr>rmSync_result := Throws ''EBUSY''\<rparr>" and e = "''EBUSY''"
       and req = sample_request and s = empty_sys
       and argv = sample_argv and q = "''mp3/track1.wav''"]
  by (simp add: sample_argv_facts
      sample_world_def admitted_def acquires_def publishes_def env_missing_def
      signing_fails_def fetch_fails_def usable_url_def ff_failed_def scratch_dir_def)

section \<open>A flag without a value\<close>

text \<open>
  C10. In the flag parser a flag that is the last argument, or is followed at once by
  another flag, is given the boolean \<^verbatim>\<open>true\<close>, not a string (wherever it stands in the
  argument list, as long as it is not given again later). \<^verbatim>\<open>true\<close> is truthy: the
  invocation \<^verbatim>\<open>--bucket --path p\<close> passes the check for the required flags, does not end with
  the usage error 2 on a host that passes the other checks, and asks for the signed URL
  with the bucket \<^verbatim>\<open>true\<close>.
\<close>

theorem bare_flag_reads_true:
  "(k \<noteq> ''__proto__'' \<and> ''--'' @ k \<notin> set rest \<and>
    (case rest of [] \<Rightarrow> True | b # r \<Rightarrow> startsWith b ''--'') \<longrightarrow>
      get_prop (parseArgs (pre @ (''--'' @ k) # rest)) k = JBool True)
   \<and> (p \<noteq> [] \<and> \<not> startsWith p ''--'' \<longrightarrow>
      get_prop (parseArgs [''--bucket'', ''--path'', p]) ''bucket'' = JBool True \<and>
      truthy (get_prop (parseArgs [''--bucket'', ''--path'', p]) ''bucket'') \<and>
      get_prop (parseArgs [''--bucket'', ''--path'', p]) ''path'' = JStr p)
   \<and> (p \<noteq> [] \<and> \<not> startsWith p ''--'' \<and> admitted w \<longrightarrow>
      fst (main w [''--bucket'', ''--path'', p] s) \<noteq> Exit 2 \<and>
      CreateSignedUrl (JBool True) (JStr p) 60
        \<in> set (main_events w [''--bucket'', ''--path'', p] s))"
proof (intro conjI impI)
  assume a: "k \<noteq> ''__proto__'' \<and> ''--'' @ k \<notin> set rest \<and>
    (case rest of [] \<Rightarrow> True | b # r \<Rightarrow> startsWith b ''--'')"
  have "startsWith (''--'' @ k) ''--''"
    by (simp add: startsWith_def)
  from parseArgs_loop_reaches_flag [OF this, of pre rest "[]"]
  obtain out' where "parseArgs_loop (pre @ (''--'' @ k) # rest) [] =
      parseArgs_loop ((''--'' @ k) # rest) out'"
    by blast
  then show "get_prop (parseArgs (pre @ (''--'' @ k) # rest)) k = JBool True"
    using a bare_flag_step [of k rest out'] by (simp add: parseArgs_def get_prop_def)
next
  assume p: "p \<noteq> [] \<and> \<not> startsWith p ''--''"
  then show "get_prop (parseArgs [''--bucket'', ''--path'', p]) ''bucket'' = JBool True"
    and "truthy (get_prop (parseArgs [''--bucket'', ''--path'', p]) ''bucket'')"
    and "get_prop (parseArgs [''--bucket'', ''--path'', p]) ''path'' = JStr p"
    by (simp_all add: parseArgs_def get_prop_def startsWith_def set_prop_def)
next
  assume a: "p \<noteq> [] \<and> \<not> startsWith p ''--'' \<and> admitted w"
  then have b: "get_prop (parseArgs [''--bucket'', ''--path'', p]) ''bucket'' = JBool True"
    and q: "get_prop (parseArgs [''--bucket'', ''--path'', p]) ''path'' = JStr p"
    by (simp_all add: parseArgs_def get_prop_def startsWith_def set_prop_def)
  have tb: "truthy (get_prop (parseArgs [''--bucket'', ''--path'', p]) ''bucket'')"
    by (simp add: b)
  have tp: "truthy (get_prop (parseArgs [''--bucket'', ''--path'', p]) ''path'')"
    using a by (simp add: q)
  from a have w: "admitted w"
    by simp
  show "fst (main w [''--bucket'', ''--path'', p] s) \<noteq> Exit 2"
    using main_ends(1) [OF tb tp w, of s] by auto
  show "CreateSignedUrl (JBool True) (JStr p) 60
        \<in> set (main_events w [''--bucket'', ''--path'', p] s)"
    using main_signs [OF tb tp w, of s] by (simp add: b q)
qed

theorem bare_flag_reads_true_witness:
  "''--'' @ ''bucket'' \<notin> set [''--path'', ''mp3/track1.wav''] \<and>
   startsWith ''--path'' ''--'' \<and>
   get_prop (parseArgs ([''--dest'', ''d.mp3''] @ (''--'' @ ''bucket'') # [''--path'', ''mp3/track1.wav'']))
      ''bucket'' = JBool True \<and>
   get_prop (parseArgs ([] @ (''--'' @ ''path'') # [])) ''path'' = JBool True \<and>
   \<not> startsWith ''mp3/track1.wav'' ''--'' \<and> admitted sample_world \<and>
   get_prop (parseArgs [''--bucket'', ''--path'', ''mp3/track1.wav'']) ''bucket'' = JBool True \<and>
   fst (main sample_world [''--bucket'', ''--path'', ''mp3/track1.wav''] empty_sys) \<noteq> Exit 2 \<and>
   CreateSignedUrl (JBool True) (JStr ''mp3/track1.wav'') 60
     \<in> set (main_events sample_world [''--bucket'', ''--path'', ''mp3/track1.wav''] empty_sys)"
  using bare_flag_reads_true [where k = "''bucket''" and pre = "[''--dest'', ''d.mp3'']"
        and rest = "[''--path'', ''mp3/track1.wav'']" and p = "''mp3/track1.wav''"
        and w = sample_world and s = empty_sys]
    bare_flag_reads_true [where k = "''path''" and pre = "[]" and rest = "[]"
        and p = "''mp3/track1.wav''" and w = sample_world and s = empty_sys]
  by (simp add: startsWith_def sample_world_facts)

end
